theory Spec2Isabelle
  imports Complex_Main "HOL-Library.Sublist"
begin

section \<open>The MCQ video generator (main.py)\<close>

text \<open>
  The program is a linear pipeline around three libraries (image drawing, text to
  speech, video encoding). The libraries, the CSV reader and the operating system are
  not part of the program: their behaviour is a parameter of the model, the record
  \<open>env\<close> below, one field per external call, each saying whether that call returns or
  raises (and with which exception). Nothing is assumed about these fields unless a
  theorem says so.

  What the program can observe and change is the record \<open>state\<close>: the set of paths that
  exist (\<open>os.path.exists\<close>, file writes, \<open>os.remove\<close>, \<open>os.makedirs\<close>) and a log of
  the calls made to the pipeline's components, in program order.

  Conventions of the model:
  \<^item> exceptions are the subclasses of Python's \<open>Exception\<close>; a function that may raise
    returns \<open>py_exception + 'a\<close>, \<open>Inl\<close> being the raise;
  \<^item> \<open>print\<close> and \<open>traceback.print_exc\<close> are not modelled;
  \<^item> \<open>asyncio.to_thread f args\<close> followed by \<open>await\<close> is the call \<open>f args\<close>;
  \<^item> a library call that writes a file touches that path only; when it raises, the
    path may or may not exist afterwards (the flag of \<open>WriteFailed\<close>);
  \<^item> \<open>os.remove\<close> of a path that \<open>os.path.exists\<close> has just reported removes it;
  \<^item> paths follow POSIX (\<open>posixpath.join\<close>); durations are real numbers;
  \<^item> characters are 8-bit, so whitespace is Python's whitespace of the ASCII range.
\<close>

subsection \<open>Exceptions\<close>

datatype py_exception =
    FileNotFoundError string
  | RuntimeError string
  | ValueError string
  | AttributeError string
  | EmptyDataError string
  | OtherException string

text \<open>\<open>str(e)\<close>, what an f-string prints for \<open>{e}\<close>.\<close>

fun exc_str :: "py_exception \<Rightarrow> string" where
  "exc_str (FileNotFoundError m) = m"
| "exc_str (RuntimeError m) = m"
| "exc_str (ValueError m) = m"
| "exc_str (AttributeError m) = m"
| "exc_str (EmptyDataError m) = m"
| "exc_str (OtherException m) = m"

subsection \<open>Strings and paths\<close>

definition sq :: string where
  "sq = [CHR 0x27]"

definition py_isspace :: "char \<Rightarrow> bool" where
  "py_isspace c = (c \<in> {CHR 0x09, CHR 0x0A, CHR 0x0B, CHR 0x0C, CHR 0x0D,
                          CHR 0x1C, CHR 0x1D, CHR 0x1E, CHR 0x1F, CHR 0x20})"

text \<open>\<open>text.split()\<close>: the maximal runs of non-whitespace characters; the first
  argument is the run being read.\<close>

fun split_ws :: "string \<Rightarrow> string \<Rightarrow> string list" where
  "split_ws cur [] = (if cur = [] then [] else [cur])"
| "split_ws cur (c # cs) =
     (if py_isspace c then (if cur = [] then split_ws [] cs else cur # split_ws [] cs)
      else split_ws (cur @ [c]) cs)"

definition py_split :: "string \<Rightarrow> string list" where
  "py_split s = split_ws [] s"

text \<open>\<open>sep.join(xs)\<close>\<close>

fun py_join :: "string \<Rightarrow> string list \<Rightarrow> string" where
  "py_join sep [] = []"
| "py_join sep [x] = x"
| "py_join sep (x # y # ys) = x @ sep @ py_join sep (y # ys)"

text \<open>\<open>s.split(d)\<close> for a one-character separator: empty pieces are kept.\<close>

fun split_on :: "char \<Rightarrow> string \<Rightarrow> string \<Rightarrow> string list" where
  "split_on d cur [] = [cur]"
| "split_on d cur (c # cs) =
     (if c = d then cur # split_on d [] cs else split_on d (cur @ [c]) cs)"

definition py_strip :: "string \<Rightarrow> string" where
  "py_strip s = rev (dropWhile py_isspace (rev (dropWhile py_isspace s)))"

text \<open>\<open>str(n)\<close> for a non-negative integer.\<close>

definition digit_char :: "nat \<Rightarrow> char" where
  "digit_char k = char_of (48 + k)"

function str_nat :: "nat \<Rightarrow> string" where
  "str_nat n = (if n < 10 then [digit_char n] else str_nat (n div 10) @ [digit_char (n mod 10)])"
  by pat_completeness auto
termination
  by (relation "measure (\<lambda>n. n)") auto

declare str_nat.simps [simp del]

text \<open>\<open>os.path.join(a, b)\<close> and \<open>os.path.isabs\<close> on POSIX.\<close>

definition path_join :: "string \<Rightarrow> string \<Rightarrow> string" where
  "path_join a b =
     (if (b \<noteq> [] \<and> hd b = CHR ''/'') \<or> a = [] then b
      else if last a = CHR ''/'' then a @ b
      else a @ ''/'' @ b)"


subsection \<open>Data\<close>

text \<open>A cell of the table as \<open>data_frame.values.tolist()\<close> gives it: a string, pandas'
  missing value, or any other object (carrying its \<open>str()\<close>).\<close>

datatype cell = Str string | NaN | Other string

fun cell_str :: "cell \<Rightarrow> string" where
  "cell_str (Str s) = s"
| "cell_str NaN = ''nan''"
| "cell_str (Other r) = r"

fun is_na :: "cell \<Rightarrow> bool" where
  "is_na NaN = True"
| "is_na _ = False"

type_synonym data_frame = "cell list list"

type_synonym rgb = "int \<times> int \<times> int"

datatype write_result = Written | WriteFailed py_exception bool

datatype event =
    RenderCall "cell list" string
  | NarrateCall string string string
  | ClipCall string string string int
  | ClipWritten string real int
  | ConcatCall "string list" string

record state =
  fs :: "string set"
  calls :: "event list"

record env =
  splitext_root :: "string \<Rightarrow> string"
  abspath :: "string \<Rightarrow> string"
  makedirs :: "string \<Rightarrow> py_exception option"
  read_csv :: "string \<Rightarrow> py_exception + data_frame"
  image_new :: "int \<Rightarrow> int \<Rightarrow> rgb \<Rightarrow> py_exception option"
  truetype :: "string \<Rightarrow> int \<Rightarrow> py_exception option"
  textwrap_fill :: "string \<Rightarrow> int \<Rightarrow> py_exception + string"
  textbbox :: "string \<times> int \<Rightarrow> int \<times> int \<Rightarrow> string \<Rightarrow> py_exception option"
  textlength :: "string \<times> int \<Rightarrow> string \<Rightarrow> py_exception option"
  draw_text :: "string \<times> int \<Rightarrow> int \<times> int \<Rightarrow> string \<Rightarrow> rgb \<Rightarrow> py_exception option"
  image_save :: "string \<Rightarrow> write_result"
  gtts :: "string \<Rightarrow> string \<Rightarrow> py_exception option"
  tts_save :: "string \<Rightarrow> string \<Rightarrow> string \<Rightarrow> write_result"
  audio_file_clip :: "string \<Rightarrow> py_exception + real option"
  image_clip :: "string \<Rightarrow> py_exception option"
  write_videofile :: "string \<Rightarrow> string \<Rightarrow> real \<Rightarrow> int \<Rightarrow> string \<Rightarrow> write_result"
  video_file_clip :: "string \<Rightarrow> py_exception option"
  concatenate_videoclips :: "string list \<Rightarrow> py_exception option"
  write_final :: "string list \<Rightarrow> string \<Rightarrow> write_result"

text \<open>
  The fields of \<open>env\<close>, by the call they stand for: \<open>splitext_root p\<close> is
  \<open>os.path.splitext(p)[0]\<close>; \<open>image_new\<close> is \<open>Image.new\<close> followed by
  \<open>ImageDraw.Draw\<close>; \<open>truetype\<close> is \<open>ImageFont.truetype\<close>; \<open>textbbox\<close>, \<open>textlength\<close>
  and \<open>draw_text\<close> are the methods of the drawing object, with the font (its path and
  size) as first argument; \<open>gtts\<close> is the constructor \<open>gTTS(text, lang)\<close> and
  \<open>tts_save\<close> its \<open>save\<close>; \<open>audio_file_clip p\<close> is \<open>AudioFileClip(p)\<close> and gives the
  \<open>duration\<close> attribute of the clip, \<open>None\<close> when it is unknown; \<open>write_videofile\<close> is
  the encoding of one clip from its image, audio, duration and frame rate to a path;
  \<open>video_file_clip\<close> is \<open>VideoFileClip(path)\<close>; \<open>write_final\<close> is the encoding of the
  concatenated clips. Closing a clip does not raise.
\<close>

definition log_call :: "event \<Rightarrow> state \<Rightarrow> state" where
  "log_call ev st = st\<lparr>calls := calls st @ [ev]\<rparr>"

definition path_exists :: "state \<Rightarrow> string \<Rightarrow> bool" where
  "path_exists st p = (p \<in> fs st)"

definition touch :: "string \<Rightarrow> state \<Rightarrow> state" where
  "touch p st = st\<lparr>fs := insert p (fs st)\<rparr>"

text \<open>The effect of a library call that writes the file \<open>p\<close>.\<close>

fun written :: "write_result \<Rightarrow> string \<Rightarrow> state \<Rightarrow> state" where
  "written Written p st = touch p st"
| "written (WriteFailed e partial) p st = (if partial then touch p st else st)"

text \<open>\<open>if os.path.exists(p): os.remove(p)\<close>\<close>

definition remove_if_exists :: "string \<Rightarrow> state \<Rightarrow> state" where
  "remove_if_exists p st = (if path_exists st p then st\<lparr>fs := fs st - {p}\<rparr> else st)"

subsection \<open>Constants\<close>

definition DEFAULT_IMAGE_WIDTH :: int where "DEFAULT_IMAGE_WIDTH = 1920"
definition DEFAULT_IMAGE_HEIGHT :: int where "DEFAULT_IMAGE_HEIGHT = 1080"
definition DEFAULT_BACKGROUND_COLOR :: rgb where "DEFAULT_BACKGROUND_COLOR = (0, 127, 215)"
definition DEFAULT_FONT_COLOR :: rgb where "DEFAULT_FONT_COLOR = (255, 255, 255)"
definition DEFAULT_FONT_SIZE :: int where "DEFAULT_FONT_SIZE = 70"
definition DEFAULT_LINE_SPACING :: int where "DEFAULT_LINE_SPACING = 10"
definition DEFAULT_MARGIN :: int where "DEFAULT_MARGIN = 80"
definition DEFAULT_TEXT_WRAP_WIDTH :: int where "DEFAULT_TEXT_WRAP_WIDTH = 45"
definition DEFAULT_FPS :: int where "DEFAULT_FPS = 24"
definition DEFAULT_LANGUAGE :: string where "DEFAULT_LANGUAGE = ''en''"
definition DEFAULT_FONT_PATH :: string where "DEFAULT_FONT_PATH = ''HindVadodara-Light.ttf''"

subsection \<open>Slide renderer: \<open>create_image_for_mcq\<close>\<close>

text \<open>The size of a line: \<open>draw.textbbox\<close>, and \<open>draw.textlength\<close> when that raises
  \<open>AttributeError\<close>; any other exception leaves the function.\<close>

definition measure_line :: "env \<Rightarrow> string \<times> int \<Rightarrow> int \<times> int \<Rightarrow> string \<Rightarrow> py_exception option" where
  "measure_line w font pos line =
     (case textbbox w font pos line of
        None \<Rightarrow> None
      | Some (AttributeError m) \<Rightarrow> textlength w font line
      | Some e \<Rightarrow> Some e)"

text \<open>The loop \<open>for line in lines\<close>: the state of the loop is \<open>y_position\<close> and
  \<open>text_content\<close>.\<close>

fun draw_lines ::
  "env \<Rightarrow> string \<times> int \<Rightarrow> rgb \<Rightarrow> int \<Rightarrow> int \<Rightarrow> int \<Rightarrow> int \<Rightarrow> string \<Rightarrow> string list
     \<Rightarrow> py_exception + (int \<times> string)" where
  "draw_lines w font font_color font_size line_spacing margin y_position text_content [] =
     Inr (y_position, text_content)"
| "draw_lines w font font_color font_size line_spacing margin y_position text_content (line # lines) =
     (case measure_line w font (margin, y_position) line of
        Some e \<Rightarrow> Inl e
      | None \<Rightarrow>
          (case draw_text w font (margin, y_position) line font_color of
             Some e \<Rightarrow> Inl e
           | None \<Rightarrow>
               draw_lines w font font_color font_size line_spacing margin
                 (y_position + font_size + line_spacing) (text_content @ line @ '' '') lines))"

text \<open>\<open>' '.join(text.split())\<close> after \<open>str(text)\<close> for a cell that is not a string.\<close>

definition cleanup_text :: "cell \<Rightarrow> string" where
  "cleanup_text c = py_join '' '' (py_split (cell_str c))"

text \<open>The loop \<open>for text in data_row\<close>.\<close>

fun draw_cells ::
  "env \<Rightarrow> string \<times> int \<Rightarrow> rgb \<Rightarrow> int \<Rightarrow> int \<Rightarrow> int \<Rightarrow> int \<Rightarrow> int \<Rightarrow> string \<Rightarrow> cell list
     \<Rightarrow> py_exception + (int \<times> string)" where
  "draw_cells w font font_color font_size line_spacing margin wrap_width y_position text_content [] =
     Inr (y_position, text_content)"
| "draw_cells w font font_color font_size line_spacing margin wrap_width y_position text_content (c # cs) =
     (let text = cleanup_text c in
      if text = [] then
        draw_cells w font font_color font_size line_spacing margin wrap_width y_position text_content cs
      else
        (case textwrap_fill w text wrap_width of
           Inl e \<Rightarrow> Inl e
         | Inr wrapped_text \<Rightarrow>
             (case draw_lines w font font_color font_size line_spacing margin y_position text_content
                     (split_on CHR 0x0A [] wrapped_text) of
                Inl e \<Rightarrow> Inl e
              | Inr (y', text_content') \<Rightarrow>
                  draw_cells w font font_color font_size line_spacing margin wrap_width
                    (y' + line_spacing * 2) text_content' cs)))"

text \<open>The body of the \<open>try\<close>.\<close>

definition create_image_body ::
  "env \<Rightarrow> cell list \<Rightarrow> string \<Rightarrow> int \<Rightarrow> int \<Rightarrow> rgb \<Rightarrow> rgb \<Rightarrow> int \<Rightarrow> string \<Rightarrow> int \<Rightarrow> int \<Rightarrow> int
     \<Rightarrow> state \<Rightarrow> (py_exception + string) \<times> state" where
  "create_image_body w data_row image_path width height bg_color font_color font_size font_path
       line_spacing margin wrap_width st =
     (case image_new w width height bg_color of
        Some e \<Rightarrow> (Inl e, st)
      | None \<Rightarrow>
          if \<not> path_exists st font_path then
            (Inl (FileNotFoundError (''Font file not found at: '' @ font_path)), st)
          else
            (case truetype w font_path font_size of
               Some e \<Rightarrow> (Inl e, st)
             | None \<Rightarrow>
                 (case draw_cells w (font_path, font_size) font_color font_size line_spacing margin
                         wrap_width margin [] data_row of
                    Inl e \<Rightarrow> (Inl e, st)
                  | Inr (y_position, text_content) \<Rightarrow>
                      (case image_save w image_path of
                         Written \<Rightarrow> (Inr (py_strip text_content), written Written image_path st)
                       | WriteFailed e partial \<Rightarrow>
                           (Inl e, written (WriteFailed e partial) image_path st)))))"

text \<open>The two \<open>except\<close> clauses: a \<open>FileNotFoundError\<close> is raised again as it is, any
  other exception becomes a \<open>RuntimeError\<close>.\<close>

definition image_handler :: "string \<Rightarrow> py_exception \<Rightarrow> py_exception" where
  "image_handler image_path e =
     (case e of
        FileNotFoundError m \<Rightarrow> e
      | _ \<Rightarrow> RuntimeError (''Error creating image '' @ image_path @ '': '' @ exc_str e))"

definition create_image_for_mcq ::
  "env \<Rightarrow> cell list \<Rightarrow> string \<Rightarrow> int \<Rightarrow> int \<Rightarrow> rgb \<Rightarrow> rgb \<Rightarrow> int \<Rightarrow> string \<Rightarrow> int \<Rightarrow> int \<Rightarrow> int
     \<Rightarrow> state \<Rightarrow> (py_exception + string) \<times> state" where
  "create_image_for_mcq w data_row image_path width height bg_color font_color font_size font_path
       line_spacing margin wrap_width st =
     (case create_image_body w data_row image_path width height bg_color font_color font_size
             font_path line_spacing margin wrap_width (log_call (RenderCall data_row image_path) st) of
        (Inl e, st') \<Rightarrow> (Inl (image_handler image_path e), st')
      | (Inr text, st') \<Rightarrow> (Inr text, st'))"

subsection \<open>Narrator: \<open>create_audio_for_mcq\<close>\<close>

definition audio_error :: "string \<Rightarrow> py_exception \<Rightarrow> py_exception" where
  "audio_error audio_path e =
     RuntimeError (''Error creating audio '' @ audio_path @ '' with gTTS: '' @ exc_str e)"

definition create_audio_for_mcq ::
  "env \<Rightarrow> string \<Rightarrow> string \<Rightarrow> string \<Rightarrow> state \<Rightarrow> (py_exception + unit) \<times> state" where
  "create_audio_for_mcq w text audio_path lang st =
     (let st0 = log_call (NarrateCall text audio_path lang) st in
      case gtts w text lang of
        Some e \<Rightarrow> (Inl (audio_error audio_path e), st0)
      | None \<Rightarrow>
          (case tts_save w text lang audio_path of
             Written \<Rightarrow> (Inr (), written Written audio_path st0)
           | WriteFailed e partial \<Rightarrow>
               (Inl (audio_error audio_path e), written (WriteFailed e partial) audio_path st0)))"

subsection \<open>Clip composer: \<open>create_video_clip\<close>\<close>

definition clip_error :: "string \<Rightarrow> py_exception \<Rightarrow> py_exception" where
  "clip_error video_path e =
     RuntimeError (''Error creating video clip '' @ video_path @ '': '' @ exc_str e)"

text \<open>\<open>if audio_duration is None or audio_duration <= 0: audio_duration = 1.0\<close>\<close>

definition clip_duration_of :: "real option \<Rightarrow> real" where
  "clip_duration_of audio_duration =
     (case audio_duration of
        None \<Rightarrow> 1
      | Some d \<Rightarrow> if d \<le> 0 then 1 else d)"

definition create_video_clip ::
  "env \<Rightarrow> string \<Rightarrow> string \<Rightarrow> string \<Rightarrow> int \<Rightarrow> state \<Rightarrow> (py_exception + real) \<times> state" where
  "create_video_clip w image_path audio_path video_path fps st =
     (let st0 = log_call (ClipCall image_path audio_path video_path fps) st in
      if \<not> path_exists st0 image_path then
        (Inl (clip_error video_path (FileNotFoundError (''Image file not found: '' @ image_path))), st0)
      else if \<not> path_exists st0 audio_path then
        (Inl (clip_error video_path (FileNotFoundError (''Audio file not found: '' @ audio_path))), st0)
      else
        (case audio_file_clip w audio_path of
           Inl e \<Rightarrow> (Inl (clip_error video_path e), st0)
         | Inr duration \<Rightarrow>
             (let audio_duration = clip_duration_of duration in
              case image_clip w image_path of
                Some e \<Rightarrow> (Inl (clip_error video_path e), st0)
              | None \<Rightarrow>
                  (case write_videofile w image_path audio_path audio_duration fps video_path of
                     Written \<Rightarrow>
                       (Inr audio_duration,
                        log_call (ClipWritten video_path audio_duration fps)
                          (written Written video_path st0))
                   | WriteFailed e partial \<Rightarrow>
                       (Inl (clip_error video_path e),
                        written (WriteFailed e partial) video_path st0)))))"

subsection \<open>Concatenator: \<open>concatenate_videos\<close>\<close>

text \<open>The loop \<open>for path in video_paths\<close> that opens the clips.\<close>

fun open_clips :: "env \<Rightarrow> state \<Rightarrow> string list \<Rightarrow> py_exception option" where
  "open_clips w st [] = None"
| "open_clips w st (path # paths) =
     (if \<not> path_exists st path then
        Some (FileNotFoundError (''Video clip not found for concatenation: '' @ path))
      else
        (case video_file_clip w path of
           Some e \<Rightarrow> Some e
         | None \<Rightarrow> open_clips w st paths))"

definition concat_error :: "string \<Rightarrow> py_exception \<Rightarrow> py_exception" where
  "concat_error final_video_path e =
     RuntimeError (''Error concatenating videos to '' @ final_video_path @ '': '' @ exc_str e)"

definition concatenate_videos ::
  "env \<Rightarrow> string list \<Rightarrow> string \<Rightarrow> state \<Rightarrow> (py_exception + unit) \<times> state" where
  "concatenate_videos w video_paths final_video_path st =
     (let st0 = log_call (ConcatCall video_paths final_video_path) st in
      if video_paths = [] then
        (Inl (ValueError ''No video paths provided for concatenation.''), st0)
      else
        (case open_clips w st0 video_paths of
           Some e \<Rightarrow> (Inl (concat_error final_video_path e), st0)
         | None \<Rightarrow>
             (case concatenate_videoclips w video_paths of
                Some e \<Rightarrow> (Inl (concat_error final_video_path e), st0)
              | None \<Rightarrow>
                  (case write_final w video_paths final_video_path of
                     Written \<Rightarrow> (Inr (), written Written final_video_path st0)
                   | WriteFailed e partial \<Rightarrow>
                       (Inl (concat_error final_video_path e),
                        written (WriteFailed e partial) final_video_path st0)))))"

subsection \<open>Orchestrator: \<open>create_mcq_video\<close>\<close>

record args =
  csv_file_path :: string
  output_filename :: string
  language :: string
  font_path :: string
  font_size :: int
  img_width :: int
  img_height :: int
  bg_color_rgb :: rgb
  font_color_rgb :: rgb

text \<open>The strings the operation returns on failure.\<close>

definition err_csv_not_found :: "string \<Rightarrow> string" where
  "err_csv_not_found p = ''Error: Input CSV file not found at '' @ sq @ p @ sq"

definition err_font_not_found :: "string \<Rightarrow> string" where
  "err_font_not_found p =
     ''Error: Font file not found at '' @ sq @ p @ sq @ ''. Please provide a valid path.''"

definition err_no_rows :: "string \<Rightarrow> string" where
  "err_no_rows p =
     ''Error: CSV file '' @ sq @ p @ sq @ '' seems to be empty or contains no valid data rows.''"

definition err_csv_empty :: "string \<Rightarrow> string" where
  "err_csv_empty p = ''Error: CSV file '' @ sq @ p @ sq @ '' is empty.''"

definition err_csv_read :: "string \<Rightarrow> py_exception \<Rightarrow> string" where
  "err_csv_read p e = ''Error reading CSV file '' @ sq @ p @ sq @ '': '' @ exc_str e"

definition err_no_clips :: string where
  "err_no_clips =
     ''Error: No individual video clips were successfully generated. Final video cannot be created.''"

definition err_concat :: "py_exception \<Rightarrow> string" where
  "err_concat e = ''Error during final video concatenation: '' @ exc_str e"

definition err_unexpected :: "py_exception \<Rightarrow> string" where
  "err_unexpected e = ''Error: An unexpected error occurred during video generation: '' @ exc_str e"

text \<open>\<open>output_dir\<close> and \<open>final_video_full_path\<close>.\<close>

definition output_dir_of :: "env \<Rightarrow> args \<Rightarrow> string" where
  "output_dir_of w a = abspath w (''./'' @ splitext_root w (output_filename a) @ ''_output'')"

definition final_video_full_path :: "env \<Rightarrow> args \<Rightarrow> string" where
  "final_video_full_path w a = path_join (output_dir_of w a) (output_filename a)"

text \<open>Step 2, loading the table. \<open>dropna(how='all')\<close> drops the rows whose cells are
  all missing values; a frame is \<open>empty\<close> when it has no row or no column. \<open>Inl\<close> is the
  string of an early \<open>return\<close>.\<close>

definition dropna_all :: "data_frame \<Rightarrow> data_frame" where
  "dropna_all df = filter (\<lambda>row. \<not> list_all is_na row) df"

definition df_empty :: "data_frame \<Rightarrow> bool" where
  "df_empty df = (case df of [] \<Rightarrow> True | row # _ \<Rightarrow> row = [])"

definition load_data :: "env \<Rightarrow> string \<Rightarrow> string + cell list list" where
  "load_data w p =
     (case read_csv w p of
        Inr df \<Rightarrow>
          (let data_frame = dropna_all df in
           if df_empty data_frame then Inl (err_no_rows p) else Inr data_frame)
      | Inl e \<Rightarrow>
          (case e of
             EmptyDataError m \<Rightarrow> Inl (err_csv_empty p)
           | _ \<Rightarrow> Inl (err_csv_read p e)))"

text \<open>The intermediate files of item \<open>item_num\<close>.\<close>

definition image_file :: "string \<Rightarrow> nat \<Rightarrow> string" where
  "image_file output_dir item_num = path_join output_dir (''mcq_img_'' @ str_nat item_num @ ''.png'')"

definition audio_file :: "string \<Rightarrow> nat \<Rightarrow> string" where
  "audio_file output_dir item_num = path_join output_dir (''mcq_audio_'' @ str_nat item_num @ ''.mp3'')"

definition video_file :: "string \<Rightarrow> nat \<Rightarrow> string" where
  "video_file output_dir item_num = path_join output_dir (''mcq_video_'' @ str_nat item_num @ ''.mp4'')"

text \<open>The body of the \<open>try\<close> of one item: \<open>Inl e\<close> when a stage raises, \<open>Inr None\<close> when
  the item has no text (\<open>continue\<close>), \<open>Inr (Some d)\<close> when the clip of duration \<open>d\<close> is
  made.\<close>

definition item_stages ::
  "env \<Rightarrow> args \<Rightarrow> string \<Rightarrow> nat \<Rightarrow> cell list \<Rightarrow> state \<Rightarrow> (py_exception + real option) \<times> state" where
  "item_stages w a output_dir item_num data_row st =
     (case create_image_for_mcq w data_row (image_file output_dir item_num) (img_width a)
             (img_height a) (bg_color_rgb a) (font_color_rgb a) (font_size a) (font_path a)
             DEFAULT_LINE_SPACING DEFAULT_MARGIN DEFAULT_TEXT_WRAP_WIDTH st of
        (Inl e, st1) \<Rightarrow> (Inl e, st1)
      | (Inr text_for_speech, st1) \<Rightarrow>
          if text_for_speech = [] then (Inr None, st1)
          else
            (case create_audio_for_mcq w text_for_speech (audio_file output_dir item_num)
                    (language a) st1 of
               (Inl e, st2) \<Rightarrow> (Inl e, st2)
             | (Inr u, st2) \<Rightarrow>
                 (case create_video_clip w (image_file output_dir item_num)
                         (audio_file output_dir item_num) (video_file output_dir item_num)
                         DEFAULT_FPS st2 of
                    (Inl e, st3) \<Rightarrow> (Inl e, st3)
                  | (Inr clip_duration, st3) \<Rightarrow> (Inr (Some clip_duration), st3))))"

text \<open>The \<open>except\<close> clause of one item.\<close>

definition item_cleanup :: "string \<Rightarrow> nat \<Rightarrow> state \<Rightarrow> state" where
  "item_cleanup output_dir item_num st =
     remove_if_exists (video_file output_dir item_num)
       (remove_if_exists (audio_file output_dir item_num)
          (remove_if_exists (image_file output_dir item_num) st))"

text \<open>One iteration of \<open>for idx, data_row in enumerate(data_list)\<close>; the state of the loop
  is \<open>individual_video_paths\<close>, \<open>total_duration\<close> and the state of the world.\<close>

definition process_item ::
  "env \<Rightarrow> args \<Rightarrow> string \<Rightarrow> nat \<Rightarrow> cell list \<Rightarrow> string list \<times> real \<times> state
     \<Rightarrow> string list \<times> real \<times> state" where
  "process_item w a output_dir idx data_row acc =
     (case acc of (individual_video_paths, total_duration, st) \<Rightarrow>
        (let item_num = idx + 1 in
         case item_stages w a output_dir item_num data_row st of
           (Inr (Some clip_duration), st') \<Rightarrow>
             (individual_video_paths @ [video_file output_dir item_num],
              total_duration + clip_duration, st')
         | (Inr None, st') \<Rightarrow> (individual_video_paths, total_duration, st')
         | (Inl e, st') \<Rightarrow>
             (individual_video_paths, total_duration, item_cleanup output_dir item_num st')))"

fun process_items ::
  "env \<Rightarrow> args \<Rightarrow> string \<Rightarrow> nat \<Rightarrow> cell list list \<Rightarrow> string list \<times> real \<times> state
     \<Rightarrow> string list \<times> real \<times> state" where
  "process_items w a output_dir idx [] acc = acc"
| "process_items w a output_dir idx (data_row # rest) acc =
     process_items w a output_dir (idx + 1) rest (process_item w a output_dir idx data_row acc)"

text \<open>Step 4, after the loop.\<close>

definition concat_step ::
  "env \<Rightarrow> string \<Rightarrow> string list \<times> real \<times> state \<Rightarrow> (py_exception + string) \<times> state" where
  "concat_step w final_path acc =
     (case acc of (individual_video_paths, total_duration, st) \<Rightarrow>
        if individual_video_paths = [] then (Inr err_no_clips, st)
        else
          (case concatenate_videos w individual_video_paths final_path st of
             (Inl e, st') \<Rightarrow> (Inr (err_concat e), st')
           | (Inr u, st') \<Rightarrow> (Inr final_path, st')))"

text \<open>The body of the outer \<open>try\<close>.\<close>

definition create_mcq_video_body :: "env \<Rightarrow> args \<Rightarrow> state \<Rightarrow> (py_exception + string) \<times> state" where
  "create_mcq_video_body w a st =
     (if \<not> path_exists st (csv_file_path a) then (Inr (err_csv_not_found (csv_file_path a)), st)
      else if \<not> path_exists st (font_path a) then (Inr (err_font_not_found (font_path a)), st)
      else
        (let output_dir = output_dir_of w a in
         case makedirs w output_dir of
           Some e \<Rightarrow> (Inl e, st)
         | None \<Rightarrow>
             (let st1 = touch output_dir st;
                  final_path = path_join output_dir (output_filename a)
              in case load_data w (csv_file_path a) of
                   Inl msg \<Rightarrow> (Inr msg, st1)
                 | Inr data_list \<Rightarrow>
                     concat_step w final_path
                       (process_items w a output_dir 0 data_list ([], 0, st1)))))"

text \<open>The operation: the outer \<open>except Exception\<close> turns any exception that reaches it
  into a string.\<close>

definition create_mcq_video :: "env \<Rightarrow> args \<Rightarrow> state \<Rightarrow> (py_exception + string) \<times> state" where
  "create_mcq_video w a st =
     (case create_mcq_video_body w a st of
        (Inl e, st') \<Rightarrow> (Inr (err_unexpected e), st')
      | (Inr s, st') \<Rightarrow> (Inr s, st'))"

subsection \<open>A concrete run\<close>

text \<open>An environment in which every external call returns, a two-row table (the example
  of the specification), and a file system that holds the table and the font.\<close>

definition demo_table :: data_frame where
  "demo_table =
     [[Str ''Q1: 1+1?'', Str ''A:1'', Str ''B:2''],
      [Str ''Q2: capital of France?'', Str ''A:Paris'', Str ''B:Rome'']]"

definition demo_env :: env where
  "demo_env =
     \<lparr> splitext_root = (\<lambda>p. takeWhile (\<lambda>c. c \<noteq> CHR ''.'') p),
       abspath = (\<lambda>p. ''/work/'' @ drop 2 p),
       makedirs = (\<lambda>p. None),
       read_csv = (\<lambda>p. Inr demo_table),
       image_new = (\<lambda>width height bg. None),
       truetype = (\<lambda>p size. None),
       textwrap_fill = (\<lambda>text width. Inr text),
       textbbox = (\<lambda>font pos line. None),
       textlength = (\<lambda>font line. None),
       draw_text = (\<lambda>font pos line fill. None),
       image_save = (\<lambda>p. Written),
       gtts = (\<lambda>text lang. None),
       tts_save = (\<lambda>text lang p. Written),
       audio_file_clip = (\<lambda>p. Inr (Some 3)),
       image_clip = (\<lambda>p. None),
       write_videofile = (\<lambda>image audio duration fps p. Written),
       video_file_clip = (\<lambda>p. None),
       concatenate_videoclips = (\<lambda>paths. None),
       write_final = (\<lambda>paths p. Written) \<rparr>"

definition demo_args :: args where
  "demo_args =
     \<lparr> csv_file_path = ''quiz.csv'',
       output_filename = ''quiz.mp4'',
       language = DEFAULT_LANGUAGE,
       font_path = ''font.ttf'',
       font_size = DEFAULT_FONT_SIZE,
       img_width = DEFAULT_IMAGE_WIDTH,
       img_height = DEFAULT_IMAGE_HEIGHT,
       bg_color_rgb = DEFAULT_BACKGROUND_COLOR,
       font_color_rgb = DEFAULT_FONT_COLOR \<rparr>"

definition demo_state :: state where
  "demo_state = \<lparr> fs = {''quiz.csv'', ''font.ttf''}, calls = [] \<rparr>"

subsection \<open>The narrated text, in the words of the specification\<close>

text \<open>The lines a cell is wrapped into, for a cell text that is already cleaned up.\<close>

definition wrapped_lines :: "env \<Rightarrow> int \<Rightarrow> string \<Rightarrow> string list" where
  "wrapped_lines w wrap_width text =
     (case textwrap_fill w text wrap_width of
        Inr wrapped_text \<Rightarrow> split_on CHR 0x0A [] wrapped_text
      | Inl e \<Rightarrow> [])"

text \<open>The lines drawn for a row: the cells whose cleaned-up text is not empty, each
  wrapped on its own, in the order of the row.\<close>

definition drawn_lines :: "env \<Rightarrow> int \<Rightarrow> cell list \<Rightarrow> string list" where
  "drawn_lines w wrap_width data_row =
     concat (map (wrapped_lines w wrap_width) (filter (\<lambda>text. text \<noteq> []) (map cleanup_text data_row)))"

text \<open>The drawn lines joined by single spaces, surrounding whitespace stripped.\<close>

definition slide_text :: "env \<Rightarrow> int \<Rightarrow> cell list \<Rightarrow> string" where
  "slide_text w wrap_width data_row = py_strip (py_join '' '' (drawn_lines w wrap_width data_row))"

subsection \<open>Reading the log of calls and the loop\<close>

text \<open>The arguments of the calls to the concatenator, and to the narrator, in a log.\<close>

fun concat_calls :: "event list \<Rightarrow> (string list \<times> string) list" where
  "concat_calls [] = []"
| "concat_calls (ConcatCall video_paths final_video_path # evs) =
     (video_paths, final_video_path) # concat_calls evs"
| "concat_calls (ev # evs) = concat_calls evs"

fun narrate_calls :: "event list \<Rightarrow> (string \<times> string \<times> string) list" where
  "narrate_calls [] = []"
| "narrate_calls (NarrateCall text audio_path lang # evs) =
     (text, audio_path, lang) # narrate_calls evs"
| "narrate_calls (ev # evs) = narrate_calls evs"

text \<open>The three intermediate files of an item.\<close>

definition item_files :: "string \<Rightarrow> nat \<Rightarrow> string set" where
  "item_files output_dir item_num =
     {image_file output_dir item_num, audio_file output_dir item_num, video_file output_dir item_num}"

text \<open>The state in which the loop leaves the item at index \<open>idx\<close>, and the item numbers
  of the rows whose clip was made, in the order of the rows.\<close>

definition next_state :: "env \<Rightarrow> args \<Rightarrow> string \<Rightarrow> nat \<Rightarrow> cell list \<Rightarrow> state \<Rightarrow> state" where
  "next_state w a output_dir idx data_row st =
     snd (snd (process_item w a output_dir idx data_row ([], 0, st)))"

fun successful_items :: "env \<Rightarrow> args \<Rightarrow> string \<Rightarrow> nat \<Rightarrow> cell list list \<Rightarrow> state \<Rightarrow> nat list" where
  "successful_items w a output_dir idx [] st = []"
| "successful_items w a output_dir idx (data_row # rest) st =
     (case fst (item_stages w a output_dir (idx + 1) data_row st) of
        Inr (Some clip_duration) \<Rightarrow> [idx + 1]
      | _ \<Rightarrow> [])
     @ successful_items w a output_dir (idx + 1) rest (next_state w a output_dir idx data_row st)"

text \<open>The pre-flight checks pass and the table has rows to process.\<close>

definition loop_reached :: "env \<Rightarrow> args \<Rightarrow> state \<Rightarrow> cell list list \<Rightarrow> bool" where
  "loop_reached w a st data_list =
     (path_exists st (csv_file_path a) \<and> path_exists st (font_path a)
      \<and> makedirs w (output_dir_of w a) = None
      \<and> load_data w (csv_file_path a) = Inr data_list)"

text \<open>The state of the loop when it ends, for a run that reaches it.\<close>

definition loop_result :: "env \<Rightarrow> args \<Rightarrow> state \<Rightarrow> cell list list \<Rightarrow> string list \<times> real \<times> state" where
  "loop_result w a st data_list =
     process_items w a (output_dir_of w a) 0 data_list ([], 0, touch (output_dir_of w a) st)"

subsection \<open>Further concrete runs\<close>

text \<open>A table whose only row has empty cells, as the reader gives it for the line
  \<open>,,\<close> (blank cells are kept as empty strings, not as missing values).\<close>

definition blank_env :: env where
  "blank_env = demo_env\<lparr>read_csv := (\<lambda>p. Inr [[Str '''', Str '''', Str '''']])\<rparr>"



text \<open>Writing the final video fails.\<close>

definition encoder_down_env :: env where
  "encoder_down_env =
     demo_env\<lparr>write_final := (\<lambda>paths p. WriteFailed (OtherException ''encoder failed'') False)\<rparr>"

section \<open>Properties\<close>

subsection \<open>The error strings\<close>

lemma err_distinct:
  "err_csv_not_found p \<noteq> err_font_not_found q"
  "err_csv_not_found p \<noteq> err_no_rows q"
  "err_csv_not_found p \<noteq> err_csv_empty q"
  "err_csv_not_found p \<noteq> err_csv_read q e"
  "err_font_not_found p \<noteq> err_no_rows q"
  "err_font_not_found p \<noteq> err_csv_empty q"
  "err_font_not_found p \<noteq> err_csv_read q e"
  "err_no_rows p \<noteq> err_csv_read q e"
  "err_csv_empty p \<noteq> err_csv_read q e"
  by (simp_all add: err_csv_not_found_def err_font_not_found_def err_no_rows_def
      err_csv_empty_def err_csv_read_def)

text \<open>The two strings for an empty table share their beginning and differ at the end.\<close>

lemma err_no_rows_neq_empty: "err_no_rows p \<noteq> err_csv_empty q"
proof
  assume "err_no_rows p = err_csv_empty q"
  then have "rev (err_no_rows p) = rev (err_csv_empty q)" by simp
  then show False
    by (simp add: err_no_rows_def err_csv_empty_def)
qed

subsection \<open>Order of the pre-flight checks\<close>

text \<open>
  C9. When the input table does not exist, the operation returns the missing-input-file
  string and changes nothing, whether the font exists or not; in particular when both
  are missing. That string is never the missing-font string.
\<close>

theorem input_check_first:
  assumes "\<not> path_exists st (csv_file_path a)"
  shows "create_mcq_video w a st = (Inr (err_csv_not_found (csv_file_path a)), st)
       \<and> err_csv_not_found (csv_file_path a) \<noteq> err_font_not_found (font_path a)"
  using assms by (simp add: create_mcq_video_def create_mcq_video_body_def err_distinct)

theorem input_check_first_witness:
  "\<not> path_exists \<lparr>fs = {}, calls = []\<rparr> (csv_file_path demo_args)
   \<and> \<not> path_exists \<lparr>fs = {}, calls = []\<rparr> (font_path demo_args)
   \<and> fst (create_mcq_video demo_env demo_args \<lparr>fs = {}, calls = []\<rparr>)
       = Inr (err_csv_not_found ''quiz.csv'')"
  using input_check_first [of "\<lparr>fs = {}, calls = []\<rparr>" demo_args demo_env]
  by (simp add: path_exists_def demo_args_def)

subsection \<open>The text returned by the slide renderer\<close>

lemma py_isspace_space: "py_isspace CHR '' ''"
  by (simp add: py_isspace_def)

lemma py_strip_snoc_space: "py_strip (s @ '' '') = py_strip s"
proof (cases "\<forall>c\<in>set s. py_isspace c")
  case True
  then have "dropWhile py_isspace s = []" by (simp add: dropWhile_eq_Nil_conv)
  moreover from True have "dropWhile py_isspace (s @ '' '') = []"
    by (simp add: dropWhile_eq_Nil_conv py_isspace_space)
  ultimately show ?thesis by (simp only: py_strip_def)
next
  case False
  then have "dropWhile py_isspace (s @ '' '') = dropWhile py_isspace s @ '' ''"
    by (metis dropWhile_append1)
  then show ?thesis by (simp add: py_strip_def py_isspace_space)
qed

lemma concat_spaced: "concat (map (\<lambda>l. l @ '' '') ls) = (if ls = [] then [] else py_join '' '' ls @ '' '')"
  by (induction ls rule: induct_list012) auto

lemma py_strip_spaced: "py_strip (concat (map (\<lambda>l. l @ '' '') ls)) = py_strip (py_join '' '' ls)"
  using py_strip_snoc_space [of "py_join '' '' ls"]
  by (simp only: concat_spaced split: if_splits) (simp add: py_strip_def)

lemma draw_lines_text:
  "draw_lines w font fc fsz ls m y tc lines = Inr (y', tc')
   \<Longrightarrow> tc' = tc @ concat (map (\<lambda>l. l @ '' '') lines)"
proof (induction lines arbitrary: y tc)
  case Nil
  then show ?case by simp
next
  case (Cons line lines)
  from Cons.prems have
    "draw_lines w font fc fsz ls m (y + fsz + ls) (tc @ line @ '' '') lines = Inr (y', tc')"
    by (simp split: option.splits)
  then have "tc' = (tc @ line @ '' '') @ concat (map (\<lambda>l. l @ '' '') lines)"
    by (rule Cons.IH)
  then show ?case by simp
qed

lemma draw_cells_text:
  "draw_cells w font fc fsz ls m ww y tc row = Inr (y', tc')
   \<Longrightarrow> tc' = tc @ concat (map (\<lambda>l. l @ '' '') (drawn_lines w ww row))"
proof (induction row arbitrary: y tc)
  case Nil
  then show ?case by (simp add: drawn_lines_def)
next
  case (Cons c cs)
  show ?case
  proof (cases "cleanup_text c = []")
    case True
    with Cons show ?thesis by (simp add: drawn_lines_def)
  next
    case False
    with Cons.prems obtain wrapped y1 tc1 where
      f: "textwrap_fill w (cleanup_text c) ww = Inr wrapped"
      and l: "draw_lines w font fc fsz ls m y tc (split_on CHR 0x0A [] wrapped) = Inr (y1, tc1)"
      and r: "draw_cells w font fc fsz ls m ww (y1 + ls * 2) tc1 cs = Inr (y', tc')"
      by (auto simp: Let_def split: sum.splits)
    from l have "tc1 = tc @ concat (map (\<lambda>l. l @ '' '') (split_on CHR 0x0A [] wrapped))"
      by (rule draw_lines_text)
    moreover from r have "tc' = tc1 @ concat (map (\<lambda>l. l @ '' '') (drawn_lines w ww cs))"
      by (rule Cons.IH)
    ultimately show ?thesis
      using False f by (simp add: drawn_lines_def wrapped_lines_def)
  qed
qed

lemma create_image_body_text:
  assumes "create_image_body w row p width height bg fc fsz fp ls m ww st = (Inr text, st')"
  shows "text = slide_text w ww row"
proof -
  from assms obtain y tc where
    d: "draw_cells w (fp, fsz) fc fsz ls m ww m [] row = Inr (y, tc)" and t: "text = py_strip tc"
    by (auto simp: create_image_body_def split: option.splits if_splits sum.splits write_result.splits)
  from d have "tc = concat (map (\<lambda>l. l @ '' '') (drawn_lines w ww row))"
    using draw_cells_text by fastforce
  with t show ?thesis by (simp add: slide_text_def py_strip_spaced)
qed



subsection \<open>The duration of a clip\<close>

text \<open>
  C5. When the clip composer returns, the value it returns is the duration the clip was
  written with: the duration of the audio file when that is known and positive, and
  exactly 1 when it is missing or not positive.
\<close>

theorem clip_duration:
  assumes "create_video_clip w image_path audio_path video_path fps st = (Inr d, st')"
  shows "\<exists>duration. audio_file_clip w audio_path = Inr duration
           \<and> (\<forall>x. duration = Some x \<and> 0 < x \<longrightarrow> d = x)
           \<and> (duration = None \<or> (\<exists>x. duration = Some x \<and> x \<le> 0) \<longrightarrow> d = 1)
           \<and> write_videofile w image_path audio_path d fps video_path = Written
           \<and> calls st' = calls st @ [ClipCall image_path audio_path video_path fps,
                                      ClipWritten video_path d fps]"
  using assms
  by (auto simp: create_video_clip_def Let_def clip_duration_of_def log_call_def touch_def
      split: if_splits sum.splits option.splits write_result.splits)

theorem clip_duration_witness:
  "fst (create_video_clip (demo_env\<lparr>audio_file_clip := (\<lambda>p. Inr (Some (5/2)))\<rparr>)
          ''i.png'' ''a.mp3'' ''v.mp4'' 24 \<lparr>fs = {''i.png'', ''a.mp3''}, calls = []\<rparr>) = Inr (5/2)
   \<and> fst (create_video_clip (demo_env\<lparr>audio_file_clip := (\<lambda>p. Inr None)\<rparr>)
          ''i.png'' ''a.mp3'' ''v.mp4'' 24 \<lparr>fs = {''i.png'', ''a.mp3''}, calls = []\<rparr>) = Inr 1
   \<and> fst (create_video_clip (demo_env\<lparr>audio_file_clip := (\<lambda>p. Inr (Some 0))\<rparr>)
          ''i.png'' ''a.mp3'' ''v.mp4'' 24 \<lparr>fs = {''i.png'', ''a.mp3''}, calls = []\<rparr>) = Inr 1"
proof -
  let ?st = "\<lparr>fs = {''i.png'', ''a.mp3''}, calls = []\<rparr>"
  let ?st' = "\<lambda>d. \<lparr>fs = {''v.mp4'', ''i.png'', ''a.mp3''},
          calls = [ClipCall ''i.png'' ''a.mp3'' ''v.mp4'' 24, ClipWritten ''v.mp4'' d 24]\<rparr>"
  have h1: "create_video_clip (demo_env\<lparr>audio_file_clip := (\<lambda>p. Inr (Some (5/2)))\<rparr>)
      ''i.png'' ''a.mp3'' ''v.mp4'' 24 ?st = (Inr (5/2), ?st' (5/2))"
    by (simp add: create_video_clip_def demo_env_def path_exists_def log_call_def touch_def
        clip_duration_of_def Let_def)
  have h2: "create_video_clip (demo_env\<lparr>audio_file_clip := (\<lambda>p. Inr None)\<rparr>)
      ''i.png'' ''a.mp3'' ''v.mp4'' 24 ?st = (Inr 1, ?st' 1)"
    by (simp add: create_video_clip_def demo_env_def path_exists_def log_call_def touch_def
        clip_duration_of_def Let_def)
  have h3: "create_video_clip (demo_env\<lparr>audio_file_clip := (\<lambda>p. Inr (Some 0))\<rparr>)
      ''i.png'' ''a.mp3'' ''v.mp4'' 24 ?st = (Inr 1, ?st' 1)"
    by (simp add: create_video_clip_def demo_env_def path_exists_def log_call_def touch_def
        clip_duration_of_def Let_def)
  from clip_duration [OF h1] clip_duration [OF h2] clip_duration [OF h3] h1 h2 h3
  show ?thesis by simp
qed

subsection \<open>File names\<close>

lemma digit_char_inj: "i < 10 \<Longrightarrow> j < 10 \<Longrightarrow> digit_char i = digit_char j \<Longrightarrow> i = j"
proof -
  assume a: "i < 10" "j < 10" "digit_char i = digit_char j"
  then have "(of_char (digit_char i) :: nat) = of_char (digit_char j)" by simp
  with a show ?thesis by (simp add: digit_char_def)
qed

lemma str_nat_not_Nil: "str_nat n \<noteq> []"
  by (subst str_nat.simps) simp

lemma str_nat_inj: "str_nat n = str_nat m \<Longrightarrow> n = m"
proof (induction n arbitrary: m rule: str_nat.induct)
  case (1 n)
  show ?case
  proof (cases "n < 10")
    case True
    with "1.prems" have s: "str_nat m = [digit_char n]" by (simp add: str_nat.simps)
    have "m < 10"
    proof (rule ccontr)
      assume "\<not> m < 10"
      then have "str_nat m = str_nat (m div 10) @ [digit_char (m mod 10)]"
        by (subst str_nat.simps) simp
      with s str_nat_not_Nil [of "m div 10"] show False by simp
    qed
    with s True show ?thesis by (auto simp: str_nat.simps dest: digit_char_inj)
  next
    case False
    then have n: "str_nat n = str_nat (n div 10) @ [digit_char (n mod 10)]"
      by (subst str_nat.simps) simp
    have "\<not> m < 10"
    proof
      assume "m < 10"
      then have "str_nat m = [digit_char m]" by (simp add: str_nat.simps)
      with n "1.prems" str_nat_not_Nil [of "n div 10"] show False by simp
    qed
    then have m: "str_nat m = str_nat (m div 10) @ [digit_char (m mod 10)]"
      by (subst str_nat.simps) simp
    from n m "1.prems" have
      "str_nat (n div 10) = str_nat (m div 10)" "digit_char (n mod 10) = digit_char (m mod 10)"
      by simp_all
    then have "n div 10 = m div 10" "n mod 10 = m mod 10"
      using "1.IH" [OF False] digit_char_inj [of "n mod 10" "m mod 10"] by simp_all
    then show ?thesis by (metis div_mult_mod_eq)
  qed
qed

lemma path_join_inj:
  assumes "path_join d x = path_join d y" "hd x \<noteq> CHR ''/''" "hd y \<noteq> CHR ''/''"
  shows "x = y"
  using assms by (auto simp: path_join_def split: if_splits)

lemma file_names_inj:
  "image_file d i = image_file d j \<Longrightarrow> i = j"
  "audio_file d i = audio_file d j \<Longrightarrow> i = j"
  "video_file d i = video_file d j \<Longrightarrow> i = j"
  by (auto simp: image_file_def audio_file_def video_file_def dest!: path_join_inj str_nat_inj)

lemma file_names_distinct:
  "image_file d i \<noteq> audio_file d j"
  "image_file d i \<noteq> video_file d j"
  "audio_file d i \<noteq> video_file d j"
  by (auto simp: image_file_def audio_file_def video_file_def dest!: path_join_inj)

lemma item_files_disjoint: "i \<noteq> j \<Longrightarrow> item_files d i \<inter> item_files d j = {}"
  using file_names_inj [of d i j] file_names_distinct [of d i j] file_names_distinct [of d j i]
  by (auto simp: item_files_def)

subsection \<open>What the components do to the state\<close>

lemma concat_calls_append: "concat_calls (xs @ ys) = concat_calls xs @ concat_calls ys"
  by (induction xs rule: concat_calls.induct) simp_all

lemma narrate_calls_append: "narrate_calls (xs @ ys) = narrate_calls xs @ narrate_calls ys"
  by (induction xs rule: narrate_calls.induct) simp_all

lemma written_fs: "fs st \<subseteq> fs (written r p st)" "fs (written r p st) \<subseteq> insert p (fs st)"
  and written_calls: "calls (written r p st) = calls st"
  and written_ok: "fs (written Written p st) = insert p (fs st)"
  by (cases r; auto simp: touch_def)+

lemma create_image_body_state:
  assumes "create_image_body w row p wd ht bg fc fsz fp ls m ww st = (r, st')"
  shows "calls st' = calls st" "fs st \<subseteq> fs st'" "fs st' \<subseteq> insert p (fs st)"
    and "r = Inr t \<Longrightarrow> fs st' = insert p (fs st)"
  using assms
  by (auto simp: create_image_body_def touch_def
      split: option.splits if_splits sum.splits write_result.splits prod.splits)

lemma create_image_for_mcq_state:
  assumes "create_image_for_mcq w row p wd ht bg fc fsz fp ls m ww st = (r, st')"
  shows "calls st' = calls st @ [RenderCall row p]" "fs st \<subseteq> fs st'" "fs st' \<subseteq> insert p (fs st)"
    and "r = Inr t \<Longrightarrow> fs st' = insert p (fs st) \<and> t = slide_text w ww row"
proof -
  let ?st0 = "log_call (RenderCall row p) st"
  obtain r0 st0' where b: "create_image_body w row p wd ht bg fc fsz fp ls m ww ?st0 = (r0, st0')"
    by (cases "create_image_body w row p wd ht bg fc fsz fp ls m ww ?st0")
  with assms have st': "st' = st0'" and r: "r = (case r0 of Inl e \<Rightarrow> Inl (image_handler p e) | Inr t \<Rightarrow> Inr t)"
    by (auto simp: create_image_for_mcq_def split: sum.splits)
  from create_image_body_state(1-3) [OF b] st'
  show "calls st' = calls st @ [RenderCall row p]" "fs st \<subseteq> fs st'" "fs st' \<subseteq> insert p (fs st)"
    by (simp_all add: log_call_def)
  assume "r = Inr t"
  with r have "r0 = Inr t" by (cases r0) simp_all
  with b create_image_body_state(4) [OF b] create_image_body_text [of w row p wd ht bg fc fsz fp ls m ww ?st0 t st0'] st'
  show "fs st' = insert p (fs st) \<and> t = slide_text w ww row"
    by (simp add: log_call_def)
qed

lemma create_audio_for_mcq_state:
  assumes "create_audio_for_mcq w text p lang st = (r, st')"
  shows "calls st' = calls st @ [NarrateCall text p lang]" "fs st \<subseteq> fs st'" "fs st' \<subseteq> insert p (fs st)"
    and "r = Inr u \<Longrightarrow> fs st' = insert p (fs st)"
  using assms
  by (auto simp: create_audio_for_mcq_def Let_def touch_def log_call_def
      split: option.splits if_splits write_result.splits)

lemma create_video_clip_state:
  assumes "create_video_clip w img aud vid fps st = (r, st')"
  shows "\<exists>evs. calls st' = calls st @ evs \<and> concat_calls evs = [] \<and> narrate_calls evs = []"
    "fs st \<subseteq> fs st'" "fs st' \<subseteq> insert vid (fs st)"
    and "r = Inr dur \<Longrightarrow> fs st' = insert vid (fs st) \<and> img \<in> fs st \<and> aud \<in> fs st"
  using assms
  by (auto simp: create_video_clip_def Let_def touch_def log_call_def path_exists_def
      split: option.splits if_splits write_result.splits sum.splits)

lemma concatenate_videos_state:
  assumes "concatenate_videos w paths final st = (r, st')"
  shows "calls st' = calls st @ [ConcatCall paths final]" "fs st \<subseteq> fs st'" "fs st' \<subseteq> insert final (fs st)"
    and "r = Inr u \<Longrightarrow> final \<in> fs st'"
  using assms
  by (auto simp: concatenate_videos_def Let_def touch_def log_call_def
      split: option.splits if_splits write_result.splits)

subsection \<open>One item\<close>

lemma item_cleanup_state:
  "fs (item_cleanup d n st) = fs st - item_files d n" "calls (item_cleanup d n st) = calls st"
  by (auto simp: item_cleanup_def remove_if_exists_def path_exists_def item_files_def)

text \<open>The three ways an item can end, with the state each leaves.\<close>

lemma item_stages_cases:
  assumes "item_stages w a d n row st = (r, st')"
  obtains
    (raised) e evs where "r = Inl e" "fs st \<subseteq> fs st'" "fs st' \<subseteq> fs st \<union> item_files d n"
      "calls st' = calls st @ evs" "concat_calls evs = []"
      "narrate_calls evs = [] \<or>
       narrate_calls evs = [(slide_text w DEFAULT_TEXT_WRAP_WIDTH row, audio_file d n, language a)]"
  | (no_text) "r = Inr None" "fs st' = insert (image_file d n) (fs st)"
      "calls st' = calls st @ [RenderCall row (image_file d n)]"
      "slide_text w DEFAULT_TEXT_WRAP_WIDTH row = []"
  | (clipped) dur evs where "r = Inr (Some dur)" "fs st' = fs st \<union> item_files d n"
      "calls st' = calls st @ evs" "concat_calls evs = []"
      "narrate_calls evs = [(slide_text w DEFAULT_TEXT_WRAP_WIDTH row, audio_file d n, language a)]"
proof -
  let ?img = "image_file d n" and ?aud = "audio_file d n" and ?vid = "video_file d n"
  obtain r1 st1 where i: "create_image_for_mcq w row ?img (img_width a) (img_height a)
      (bg_color_rgb a) (font_color_rgb a) (font_size a) (font_path a)
      DEFAULT_LINE_SPACING DEFAULT_MARGIN DEFAULT_TEXT_WRAP_WIDTH st = (r1, st1)"
    by fastforce
  note i_st = create_image_for_mcq_state [OF i]
  show thesis
  proof (cases r1)
    case (Inl e)
    with assms i have "r = Inl e" "st' = st1" by (simp_all add: item_stages_def)
    with i_st(1-3) show thesis
      by (intro raised [of e "[RenderCall row ?img]"]) (auto simp: item_files_def)
  next
    case (Inr spoken)
    with i_st(4) have t: "spoken = slide_text w DEFAULT_TEXT_WRAP_WIDTH row"
      and f1: "fs st1 = insert ?img (fs st)" by simp_all
    show thesis
    proof (cases "spoken = []")
      case True
      with assms i Inr have "r = Inr None" "st' = st1" by (simp_all add: item_stages_def)
      with i_st(1) f1 t True show thesis by (intro no_text) simp_all
    next
      case False
      obtain r2 st2 where au: "create_audio_for_mcq w spoken ?aud (language a) st1 = (r2, st2)"
        by fastforce
      note a_st = create_audio_for_mcq_state [OF au]
      have c2: "calls st2 = calls st @ [RenderCall row ?img, NarrateCall spoken ?aud (language a)]"
        using i_st(1) a_st(1) by simp
      show thesis
      proof (cases r2)
        case (Inl e)
        with assms i Inr False au have "r = Inl e" "st' = st2" by (simp_all add: item_stages_def)
        with c2 a_st(2,3) f1 t show thesis
          by (intro raised [of e "[RenderCall row ?img, NarrateCall spoken ?aud (language a)]"])
             (auto simp: item_files_def)
      next
        case u: (Inr u)
        with a_st(4) f1 have f2: "fs st2 = insert ?aud (insert ?img (fs st))" by simp
        obtain r3 st3 where v: "create_video_clip w ?img ?aud ?vid DEFAULT_FPS st2 = (r3, st3)"
          by fastforce
        note v_st = create_video_clip_state [OF v]
        from v_st(1) obtain evs3 where
          c3: "calls st3 = calls st2 @ evs3" "concat_calls evs3 = []" "narrate_calls evs3 = []"
          by blast
        let ?evs = "[RenderCall row ?img, NarrateCall spoken ?aud (language a)] @ evs3"
        have c: "calls st3 = calls st @ ?evs" using c2 c3(1) by simp
        have cc: "concat_calls ?evs = []" using c3(2) by simp
        have nc: "narrate_calls ?evs = [(slide_text w DEFAULT_TEXT_WRAP_WIDTH row, ?aud, language a)]"
          using c3(3) t by simp
        show thesis
        proof (cases r3)
          case (Inl e)
          with assms i Inr False au u v have "r = Inl e" "st' = st3"
            by (simp_all add: item_stages_def)
          moreover have "fs st \<subseteq> fs st3" "fs st3 \<subseteq> fs st \<union> item_files d n"
            using v_st(2,3) f2 by (auto simp: item_files_def)
          ultimately show thesis using c cc nc by (intro raised [of e ?evs]) simp_all
        next
          case (Inr dur)
          with assms i \<open>r1 = Inr spoken\<close> False au u v have "r = Inr (Some dur)" "st' = st3"
            by (simp_all add: item_stages_def)
          moreover have "fs st3 = fs st \<union> item_files d n"
            using v_st(4) [OF Inr] f2 by (auto simp: item_files_def)
          ultimately show thesis using c cc nc by (intro clipped [of dur ?evs]) simp_all
        qed
      qed
    qed
  qed
qed

lemma process_item_eq:
  "process_item w a d idx row (paths, tot, st) =
     (paths @ map (video_file d)
        (case fst (item_stages w a d (idx + 1) row st) of Inr (Some dur) \<Rightarrow> [idx + 1] | _ \<Rightarrow> []),
      fst (snd (process_item w a d idx row (paths, tot, st))),
      next_state w a d idx row st)"
  by (auto simp: process_item_def next_state_def Let_def split: prod.splits sum.splits option.splits)

lemma next_state_cases:
  obtains
    (raised) e evs where "fst (item_stages w a d (idx + 1) row st) = Inl e"
      "fs (next_state w a d idx row st) = fs st - item_files d (idx + 1)"
      "calls (next_state w a d idx row st) = calls st @ evs" "concat_calls evs = []"
      "narrate_calls evs = [] \<or>
       narrate_calls evs = [(slide_text w DEFAULT_TEXT_WRAP_WIDTH row, audio_file d (idx + 1), language a)]"
  | (no_text) "fst (item_stages w a d (idx + 1) row st) = Inr None"
      "fs (next_state w a d idx row st) = insert (image_file d (idx + 1)) (fs st)"
      "calls (next_state w a d idx row st) = calls st @ [RenderCall row (image_file d (idx + 1))]"
      "slide_text w DEFAULT_TEXT_WRAP_WIDTH row = []"
  | (clipped) dur evs where "fst (item_stages w a d (idx + 1) row st) = Inr (Some dur)"
      "fs (next_state w a d idx row st) = fs st \<union> item_files d (idx + 1)"
      "calls (next_state w a d idx row st) = calls st @ evs" "concat_calls evs = []"
      "narrate_calls evs = [(slide_text w DEFAULT_TEXT_WRAP_WIDTH row, audio_file d (idx + 1), language a)]"
proof -
  obtain r st' where s: "item_stages w a d (idx + 1) row st = (r, st')" by fastforce
  from s show thesis
  proof (cases rule: item_stages_cases)
    case (raised e evs)
    with s have "next_state w a d idx row st = item_cleanup d (idx + 1) st'"
      by (simp add: next_state_def process_item_def)
    with raised s show ?thesis
      by (intro that(1) [of e evs]) (auto simp: item_cleanup_state)
  next
    case no_text
    with s have "next_state w a d idx row st = st'"
      by (simp add: next_state_def process_item_def)
    with no_text s show ?thesis by (intro that(2)) simp_all
  next
    case (clipped dur evs)
    with s have "next_state w a d idx row st = st'"
      by (simp add: next_state_def process_item_def)
    with clipped s show ?thesis by (intro that(3) [of dur evs]) simp_all
  qed
qed

subsection \<open>The loop\<close>

lemma process_items_paths:
  "fst (process_items w a d idx rows (paths, tot, st))
     = paths @ map (video_file d) (successful_items w a d idx rows st)"
proof (induction rows arbitrary: idx paths tot st)
  case Nil
  show ?case by simp
next
  case (Cons row rest)
  show ?case
    by (subst process_items.simps, subst process_item_eq, subst Cons.IH) simp
qed

lemma process_items_state_indep:
  "snd (snd (process_items w a d idx rows (paths, tot, st)))
     = snd (snd (process_items w a d idx rows (paths', tot', st)))"
proof (induction rows arbitrary: idx paths tot paths' tot' st)
  case Nil
  show ?case by simp
next
  case (Cons row rest)
  obtain P T where 1: "process_item w a d idx row (paths, tot, st) = (P, T, next_state w a d idx row st)"
    using process_item_eq by blast
  obtain P' T' where 2: "process_item w a d idx row (paths', tot', st) = (P', T', next_state w a d idx row st)"
    using process_item_eq by blast
  show ?case
    by (simp only: process_items.simps 1 2) (rule Cons.IH)
qed

lemma process_items_Cons_state:
  "snd (snd (process_items w a d idx (row # rest) (paths, tot, st)))
     = snd (snd (process_items w a d (idx + 1) rest ([], 0, next_state w a d idx row st)))"
proof -
  obtain P T where 1: "process_item w a d idx row (paths, tot, st) = (P, T, next_state w a d idx row st)"
    using process_item_eq by blast
  show ?thesis
    by (simp only: process_items.simps 1) (rule process_items_state_indep)
qed

lemma successful_items_subseq:
  "subseq (successful_items w a d idx rows st) [Suc idx..<Suc idx + length rows]"
proof (induction rows arbitrary: idx st)
  case Nil
  show ?case by simp
next
  case (Cons row rest)
  define S where "S = successful_items w a d (idx + 1) rest (next_state w a d idx row st)"
  define U where "U = [Suc (Suc idx)..<Suc (Suc idx) + length rest]"
  have u: "[Suc idx..<Suc idx + length (row # rest)] = Suc idx # U"
    unfolding U_def by (subst upt_rec) simp
  from Cons.IH [of "idx + 1" "next_state w a d idx row st"] have "subseq S U"
    by (simp add: S_def U_def)
  then have "subseq (Suc idx # S) (Suc idx # U)" "subseq S (Suc idx # U)"
    by (simp_all add: list_emb_Cons)
  then show ?case
    unfolding u successful_items.simps S_def [symmetric]
    by (simp split: sum.splits option.splits)
qed

text \<open>The calls of the loop: none to the concatenator, and the narrator is called for
  rows in their order, each time with the text of that row and the audio file of that
  row.\<close>

lemma process_items_calls:
  "\<exists>evs. calls (snd (snd (process_items w a d idx rows (paths, tot, st)))) = calls st @ evs
      \<and> concat_calls evs = []
      \<and> subseq (narrate_calls evs)
           (map (\<lambda>(i, row). (slide_text w DEFAULT_TEXT_WRAP_WIDTH row, audio_file d i, language a))
              (List.enumerate (Suc idx) rows))"
proof (induction rows arbitrary: idx paths tot st)
  case Nil
  show ?case by simp
next
  case (Cons row rest)
  let ?st1 = "next_state w a d idx row st"
  let ?X = "(slide_text w DEFAULT_TEXT_WRAP_WIDTH row, audio_file d (idx + 1), language a)"
  let ?R = "map (\<lambda>(i, row). (slide_text w DEFAULT_TEXT_WRAP_WIDTH row, audio_file d i, language a))
              (List.enumerate (Suc (idx + 1)) rest)"
  from Cons.IH [of "idx + 1" "[]" 0 ?st1] obtain evs2 where
    2: "calls (snd (snd (process_items w a d (idx + 1) rest ([], 0, ?st1)))) = calls ?st1 @ evs2"
      "concat_calls evs2 = []" "subseq (narrate_calls evs2) ?R"
    by blast
  have "\<exists>evs1. calls ?st1 = calls st @ evs1 \<and> concat_calls evs1 = []
          \<and> (narrate_calls evs1 = [] \<or> narrate_calls evs1 = [?X])"
    by (cases rule: next_state_cases [of w a d idx row st]) auto
  then obtain evs1 where
    1: "calls ?st1 = calls st @ evs1" "concat_calls evs1 = []"
      "narrate_calls evs1 = [] \<or> narrate_calls evs1 = [?X]"
    by blast
  from 1(3) 2(3) have "subseq (narrate_calls evs1 @ narrate_calls evs2) (?X # ?R)"
    by (auto simp: list_emb_Cons)
  with 1 2 show ?case
    unfolding process_items_Cons_state
    by (intro exI [of _ "evs1 @ evs2"])
       (simp add: concat_calls_append narrate_calls_append)
qed

text \<open>The loop changes the file system only at the intermediate files of its items.\<close>

lemma process_items_fs_outside:
  assumes "p \<notin> (\<Union>j\<in>{Suc idx..idx + length rows}. item_files d j)"
  shows "p \<in> fs (snd (snd (process_items w a d idx rows (paths, tot, st)))) \<longleftrightarrow> p \<in> fs st"
  using assms
proof (induction rows arbitrary: idx paths tot st)
  case Nil
  show ?case by simp
next
  case (Cons row rest)
  let ?st1 = "next_state w a d idx row st"
  from Cons.prems have here: "p \<notin> item_files d (idx + 1)"
    and later: "p \<notin> (\<Union>j\<in>{Suc (idx + 1)..idx + 1 + length rest}. item_files d j)"
    by auto
  have "p \<in> fs ?st1 \<longleftrightarrow> p \<in> fs st"
    using here by (cases rule: next_state_cases [of w a d idx row st]) (auto simp: item_files_def)
  with Cons.IH [OF later, of "[]" 0 ?st1] show ?case
    unfolding process_items_Cons_state by simp
qed

text \<open>When the loop ends, the three files of every item whose clip was made exist.\<close>

lemma process_items_keeps_files:
  assumes "i \<in> set (successful_items w a d idx rows st)"
  shows "item_files d i \<subseteq> fs (snd (snd (process_items w a d idx rows (paths, tot, st))))"
  using assms
proof (induction rows arbitrary: idx paths tot st)
  case Nil
  then show ?case by simp
next
  case (Cons row rest)
  let ?st1 = "next_state w a d idx row st"
  let ?end = "snd (snd (process_items w a d (idx + 1) rest ([], 0, ?st1)))"
  from Cons.prems have
    "(\<exists>dur. i = idx + 1 \<and> fst (item_stages w a d (idx + 1) row st) = Inr (Some dur))
     \<or> i \<in> set (successful_items w a d (idx + 1) rest ?st1)"
    by (cases "fst (item_stages w a d (idx + 1) row st)") (auto split: option.splits)
  then consider
    (here) dur where "i = idx + 1" "fst (item_stages w a d (idx + 1) row st) = Inr (Some dur)"
    | (later) "i \<in> set (successful_items w a d (idx + 1) rest ?st1)"
    by blast
  then have "item_files d i \<subseteq> fs ?end"
  proof cases
    case here
    then have "item_files d i \<subseteq> fs ?st1"
      by (cases rule: next_state_cases [of w a d idx row st]) auto
    moreover have "p \<notin> (\<Union>j\<in>{Suc (idx + 1)..idx + 1 + length rest}. item_files d j)"
      if "p \<in> item_files d i" for p
    proof
      assume "p \<in> (\<Union>j\<in>{Suc (idx + 1)..idx + 1 + length rest}. item_files d j)"
      then obtain j where j: "Suc (idx + 1) \<le> j" "p \<in> item_files d j" by auto
      with here(1) have "i \<noteq> j" by simp
      from item_files_disjoint [OF this, of d] that j(2) show False by blast
    qed
    ultimately show ?thesis
      using process_items_fs_outside
        [where idx = "idx + 1" and rows = rest and d = d and w = w and a = a
           and paths = "[]" and tot = 0 and st = ?st1]
      by blast
  next
    case later
    then show ?thesis by (rule Cons.IH)
  qed
  then show ?case unfolding process_items_Cons_state .
qed

subsection \<open>After the loop\<close>

lemma concat_step_cases:
  obtains
    (none) "paths = []" "concat_step w final (paths, tot, st) = (Inr err_no_clips, st)"
  | (joined) st' where "paths \<noteq> []" "concatenate_videos w paths final st = (Inr (), st')"
      "concat_step w final (paths, tot, st) = (Inr final, st')"
  | (failed) e st' where "paths \<noteq> []" "concatenate_videos w paths final st = (Inl e, st')"
      "concat_step w final (paths, tot, st) = (Inr (err_concat e), st')"
proof (cases "paths = []")
  case True
  then show thesis by (intro that(1)) (simp_all add: concat_step_def)
next
  case False
  obtain r st' where c: "concatenate_videos w paths final st = (r, st')" by fastforce
  show thesis
  proof (cases r)
    case (Inl e)
    with False c show thesis by (intro that(3) [of e st']) (simp_all add: concat_step_def)
  next
    case (Inr u)
    with False c show thesis by (intro that(2) [of st']) (simp_all add: concat_step_def)
  qed
qed

lemma create_mcq_video_loop:
  assumes "loop_reached w a st data_list"
  shows "create_mcq_video w a st
           = concat_step w (final_video_full_path w a) (loop_result w a st data_list)"
proof -
  obtain paths tot st2 where l: "loop_result w a st data_list = (paths, tot, st2)"
    by (cases "loop_result w a st data_list")
  from assms have "create_mcq_video_body w a st
      = concat_step w (final_video_full_path w a) (loop_result w a st data_list)"
    by (simp add: loop_reached_def create_mcq_video_body_def loop_result_def Let_def
        final_video_full_path_def)
  then show ?thesis
    unfolding l
    by (cases rule: concat_step_cases [of paths w "final_video_full_path w a" tot st2])
       (simp_all add: create_mcq_video_def)
qed

lemma loop_result_paths:
  "fst (loop_result w a st data_list)
     = map (video_file (output_dir_of w a))
         (successful_items w a (output_dir_of w a) 0 data_list (touch (output_dir_of w a) st))"
  by (simp add: loop_result_def process_items_paths)

lemma loop_result_calls:
  "\<exists>evs. calls (snd (snd (loop_result w a st data_list))) = calls st @ evs
      \<and> concat_calls evs = []
      \<and> subseq (narrate_calls evs)
           (map (\<lambda>(i, row). (slide_text w DEFAULT_TEXT_WRAP_WIDTH row,
                              audio_file (output_dir_of w a) i, language a))
              (List.enumerate 1 data_list))"
  using process_items_calls [of w a "output_dir_of w a" 0 data_list "[]" 0 "touch (output_dir_of w a) st"]
  by (simp add: loop_result_def touch_def)

text \<open>
  C2. In a run that reaches the loop, let \<open>items\<close> be the rows whose clip was made, in
  the order of the rows. The list the loop leaves in \<open>individual_video_paths\<close> is the
  list of the clips of \<open>items\<close>. If it is empty, the operation returns the aggregate
  error string and the concatenator is not called. Otherwise the concatenator is called
  exactly once, with exactly that list and the path of the final video, and the
  operation returns that path when the concatenator returns, and the wrapped error
  string when it raises.
\<close>

theorem concatenation_after_loop:
  fixes w a st data_list
  defines "d \<equiv> output_dir_of w a"
    and "final \<equiv> final_video_full_path w a"
    and "items \<equiv> successful_items w a (output_dir_of w a) 0 data_list (touch (output_dir_of w a) st)"
    and "st2 \<equiv> snd (snd (loop_result w a st data_list))"
  assumes reached: "loop_reached w a st data_list"
  shows "fst (loop_result w a st data_list) = map (video_file d) items
       \<and> subseq items [1..<Suc (length data_list)]
       \<and> (items = [] \<longrightarrow>
            fst (create_mcq_video w a st) = Inr err_no_clips
            \<and> concat_calls (calls (snd (create_mcq_video w a st))) = concat_calls (calls st))
       \<and> (items \<noteq> [] \<longrightarrow>
            concat_calls (calls (snd (create_mcq_video w a st)))
              = concat_calls (calls st) @ [(map (video_file d) items, final)]
            \<and> fst (create_mcq_video w a st)
              = (case fst (concatenate_videos w (map (video_file d) items) final st2) of
                   Inr u \<Rightarrow> Inr final
                 | Inl e \<Rightarrow> Inr (err_concat e)))"
proof -
  obtain paths tot st2' where l: "loop_result w a st data_list = (paths, tot, st2')"
    by (cases "loop_result w a st data_list")
  then have st2: "st2 = st2'" by (simp add: st2_def)
  from l loop_result_paths [of w a st data_list] have p: "paths = map (video_file d) items"
    by (simp add: d_def items_def)
  have sub: "subseq items [1..<Suc (length data_list)]"
    using successful_items_subseq [of w a d 0 data_list "touch d st"]
    by (simp add: items_def d_def)
  from loop_result_calls [of w a st data_list] l obtain evs where
    evs: "calls st2' = calls st @ evs" "concat_calls evs = []"
    by auto
  have run: "create_mcq_video w a st = concat_step w final (paths, tot, st2')"
    using create_mcq_video_loop [OF reached] l by (simp add: final_def)
  have "(items = [] \<longrightarrow>
            fst (create_mcq_video w a st) = Inr err_no_clips
            \<and> concat_calls (calls (snd (create_mcq_video w a st))) = concat_calls (calls st))
       \<and> (items \<noteq> [] \<longrightarrow>
            concat_calls (calls (snd (create_mcq_video w a st)))
              = concat_calls (calls st) @ [(map (video_file d) items, final)]
            \<and> fst (create_mcq_video w a st)
              = (case fst (concatenate_videos w (map (video_file d) items) final st2) of
                   Inr u \<Rightarrow> Inr final
                 | Inl e \<Rightarrow> Inr (err_concat e)))"
  proof (cases rule: concat_step_cases [of paths w final tot st2'])
    case none
    with run p evs show ?thesis by (simp add: concat_calls_append)
  next
    case (joined st')
    with run p evs st2 concatenate_videos_state(1) [OF joined(2)] show ?thesis
      by (simp add: concat_calls_append)
  next
    case (failed e st')
    with run p evs st2 concatenate_videos_state(1) [OF failed(2)] show ?thesis
      by (simp add: concat_calls_append)
  qed
  with l p sub show ?thesis by simp
qed

text \<open>The concrete runs reach the loop.\<close>

lemma demo_reached: "loop_reached demo_env demo_args demo_state demo_table"
  by code_simp

lemma blank_reached: "loop_reached blank_env demo_args demo_state [[Str '''', Str '''', Str '''']]"
  by code_simp

theorem concatenation_after_loop_witness:
  "loop_reached demo_env demo_args demo_state demo_table
   \<and> fst (create_mcq_video demo_env demo_args demo_state) = Inr ''/work/quiz_output/quiz.mp4''
   \<and> concat_calls (calls (snd (create_mcq_video demo_env demo_args demo_state)))
       = [([''/work/quiz_output/mcq_video_1.mp4'', ''/work/quiz_output/mcq_video_2.mp4''],
           ''/work/quiz_output/quiz.mp4'')]
   \<and> loop_reached blank_env demo_args demo_state [[Str '''', Str '''', Str '''']]
   \<and> fst (create_mcq_video blank_env demo_args demo_state) = Inr err_no_clips
   \<and> concat_calls (calls (snd (create_mcq_video blank_env demo_args demo_state))) = []"
proof -
  have 1: "successful_items demo_env demo_args (output_dir_of demo_env demo_args) 0 demo_table
             (touch (output_dir_of demo_env demo_args) demo_state) = [1, 2]"
    by code_simp
  have 2: "successful_items blank_env demo_args (output_dir_of blank_env demo_args) 0
             [[Str '''', Str '''', Str '''']]
             (touch (output_dir_of blank_env demo_args) demo_state) = []"
    by code_simp
  have 3: "fst (create_mcq_video demo_env demo_args demo_state) = Inr ''/work/quiz_output/quiz.mp4''"
    by code_simp
  have 4: "map (video_file (output_dir_of demo_env demo_args)) [1, 2]
             = [''/work/quiz_output/mcq_video_1.mp4'', ''/work/quiz_output/mcq_video_2.mp4'']"
    "final_video_full_path demo_env demo_args = ''/work/quiz_output/quiz.mp4''"
    "calls demo_state = []"
    by code_simp+
  from concatenation_after_loop [OF demo_reached] concatenation_after_loop [OF blank_reached]
    demo_reached blank_reached 3
  show ?thesis
    unfolding 1 2 4 by simp
qed

subsection \<open>The boundary of the operation\<close>







subsection \<open>Global failures\<close>

text \<open>
  The pre-flight checks as the code makes them: each is decided before the loop, ends
  the invocation with a string of its own, and calls no component of the pipeline;
  the missing-file checks change nothing, the checks of the table come after the
  output directory has been created. The table counts as empty when no row is left
  after the rows whose cells are all missing values are dropped.
\<close>

lemma global_failures:
  "(\<not> path_exists st (csv_file_path a) \<longrightarrow>
      create_mcq_video w a st = (Inr (err_csv_not_found (csv_file_path a)), st))
   \<and> (path_exists st (csv_file_path a) \<and> \<not> path_exists st (font_path a) \<longrightarrow>
      create_mcq_video w a st = (Inr (err_font_not_found (font_path a)), st))
   \<and> (path_exists st (csv_file_path a) \<and> path_exists st (font_path a)
        \<and> makedirs w (output_dir_of w a) = None \<longrightarrow>
        (\<forall>df. read_csv w (csv_file_path a) = Inr df \<and> df_empty (dropna_all df) \<longrightarrow>
           create_mcq_video w a st
             = (Inr (err_no_rows (csv_file_path a)), touch (output_dir_of w a) st))
      \<and> (\<forall>m. read_csv w (csv_file_path a) = Inl (EmptyDataError m) \<longrightarrow>
           create_mcq_video w a st
             = (Inr (err_csv_empty (csv_file_path a)), touch (output_dir_of w a) st))
      \<and> (\<forall>e. read_csv w (csv_file_path a) = Inl e \<and> (\<forall>m. e \<noteq> EmptyDataError m) \<longrightarrow>
           create_mcq_video w a st
             = (Inr (err_csv_read (csv_file_path a) e), touch (output_dir_of w a) st)))
   \<and> calls (touch (output_dir_of w a) st) = calls st
   \<and> fs (touch (output_dir_of w a) st) = insert (output_dir_of w a) (fs st)
   \<and> distinct [err_csv_not_found (csv_file_path a), err_font_not_found (font_path a),
                err_no_rows (csv_file_path a), err_csv_empty (csv_file_path a),
                err_csv_read (csv_file_path a) e']"
  by (auto simp: create_mcq_video_def create_mcq_video_body_def Let_def load_data_def touch_def
      err_distinct err_no_rows_neq_empty split: py_exception.splits)

text \<open>
  C8. The specification counts a row of blank cells as dropped before processing, as the
  comment on the \<open>dropna\<close> call does (rows where all cells are NaN or empty). The table
  is read with \<open>keep_default_na=False\<close>, so a blank cell is the empty string and not a
  missing value, and \<open>dropna\<close> keeps the row. For the table whose only row is \<open>,,\<close>
  the table is therefore not found empty before the loop: the loop runs, the image of
  the row is written, and the string returned is the one for no successful clip, not
  the one for an empty table.
\<close>

theorem blank_table_reaches_loop:
  "read_csv blank_env (csv_file_path demo_args) = Inr [[Str '''', Str '''', Str '''']]
   \<and> list_all (\<lambda>c. cell_str c = []) [Str '''', Str '''', Str '''']
   \<and> dropna_all [[Str '''', Str '''', Str '''']] = [[Str '''', Str '''', Str '''']]
   \<and> create_mcq_video blank_env demo_args demo_state
       = (Inr err_no_clips,
          \<lparr>fs = {''/work/quiz_output/mcq_img_1.png'', ''/work/quiz_output'', ''quiz.csv'', ''font.ttf''},
           calls = [RenderCall [Str '''', Str '''', Str ''''] ''/work/quiz_output/mcq_img_1.png'']\<rparr>)
   \<and> ''/work/quiz_output/mcq_img_1.png'' \<notin> fs demo_state
   \<and> err_no_clips \<noteq> err_no_rows (csv_file_path demo_args)"
proof -
  have "err_no_clips \<noteq> err_no_rows (csv_file_path demo_args)"
    by (simp add: err_no_clips_def err_no_rows_def)
  moreover have "read_csv blank_env (csv_file_path demo_args) = Inr [[Str '''', Str '''', Str '''']]"
    by (simp add: blank_env_def)
  moreover have "dropna_all [[Str '''', Str '''', Str '''']] = [[Str '''', Str '''', Str '''']]"
    by (simp add: dropna_all_def)
  moreover have "create_mcq_video blank_env demo_args demo_state
       = (Inr err_no_clips,
          \<lparr>fs = {''/work/quiz_output/mcq_img_1.png'', ''/work/quiz_output'', ''quiz.csv'', ''font.ttf''},
           calls = [RenderCall [Str '''', Str '''', Str ''''] ''/work/quiz_output/mcq_img_1.png'']\<rparr>)"
    by code_simp
  moreover have "''/work/quiz_output/mcq_img_1.png'' \<notin> fs demo_state"
    by (simp add: demo_state_def)
  ultimately show ?thesis by simp
qed

subsection \<open>Row order\<close>




subsection \<open>Failure of the final concatenation\<close>

text \<open>
  C10. When at least one row succeeded and the concatenator raises, the operation
  returns the wrapped error string and deletes nothing: every path that existed when
  the loop ended still exists, and so do the image, the audio file and the clip of
  every successful row. Paths that are not intermediate files of an item of this run
  are never deleted at all: deletion is confined to the handler of a failing row,
  which removes the files of that row.
\<close>

theorem concat_failure_keeps_files:
  fixes w a st data_list
  defines "d \<equiv> output_dir_of w a"
    and "st2 \<equiv> snd (snd (loop_result w a st data_list))"
  assumes reached: "loop_reached w a st data_list"
    and some: "fst (loop_result w a st data_list) \<noteq> []"
    and fails: "concatenate_videos w (fst (loop_result w a st data_list))
                  (final_video_full_path w a) st2 = (Inl e, st3)"
  shows "create_mcq_video w a st = (Inr (err_concat e), st3)
       \<and> fs st2 \<subseteq> fs st3
       \<and> (\<forall>i\<in>set (successful_items w a d 0 data_list (touch d st)). item_files d i \<subseteq> fs st3)
       \<and> (\<forall>p\<in>fs st. p \<notin> (\<Union>j\<in>{1..length data_list}. item_files d j) \<longrightarrow> p \<in> fs st3)"
proof -
  obtain paths tot where l: "loop_result w a st data_list = (paths, tot, st2)"
    by (cases "loop_result w a st data_list") (simp add: st2_def)
  have run: "create_mcq_video w a st = concat_step w (final_video_full_path w a) (paths, tot, st2)"
    using create_mcq_video_loop [OF reached] l by simp
  from some fails l have r: "create_mcq_video w a st = (Inr (err_concat e), st3)"
    unfolding run by (simp add: concat_step_def)
  from fails have keep: "fs st2 \<subseteq> fs st3"
    by (rule concatenate_videos_state(2))
  have st2: "st2 = snd (snd (process_items w a d 0 data_list ([], 0, touch d st)))"
    by (simp add: st2_def loop_result_def d_def)
  have "item_files d i \<subseteq> fs st3" if "i \<in> set (successful_items w a d 0 data_list (touch d st))" for i
    using process_items_keeps_files [OF that, of "[]" 0] keep unfolding st2 by blast
  moreover have "p \<in> fs st3"
    if "p \<in> fs st" "p \<notin> (\<Union>j\<in>{1..length data_list}. item_files d j)" for p
  proof -
    from that(2) have "p \<notin> (\<Union>j\<in>{Suc 0..0 + length data_list}. item_files d j)" by simp
    from process_items_fs_outside [OF this, of w a "[]" 0 "touch d st"] that(1)
    have "p \<in> fs st2" unfolding st2 by (simp add: touch_def)
    with keep show ?thesis by blast
  qed
  ultimately show ?thesis using r keep by blast
qed

lemma encoder_down_reached: "loop_reached encoder_down_env demo_args demo_state demo_table"
  by code_simp

theorem concat_failure_keeps_files_witness:
  "loop_reached encoder_down_env demo_args demo_state demo_table
   \<and> fst (loop_result encoder_down_env demo_args demo_state demo_table)
       = [''/work/quiz_output/mcq_video_1.mp4'', ''/work/quiz_output/mcq_video_2.mp4'']
   \<and> fst (create_mcq_video encoder_down_env demo_args demo_state)
       = Inr (err_concat (RuntimeError
           ''Error concatenating videos to /work/quiz_output/quiz.mp4: encoder failed''))
   \<and> item_files ''/work/quiz_output'' 1 \<union> item_files ''/work/quiz_output'' 2
       \<subseteq> fs (snd (create_mcq_video encoder_down_env demo_args demo_state))"
proof -
  let ?e = "RuntimeError ''Error concatenating videos to /work/quiz_output/quiz.mp4: encoder failed''"
  let ?st3 = "snd (concatenate_videos encoder_down_env
                 (fst (loop_result encoder_down_env demo_args demo_state demo_table))
                 (final_video_full_path encoder_down_env demo_args)
                 (snd (snd (loop_result encoder_down_env demo_args demo_state demo_table))))"
  have 1: "fst (loop_result encoder_down_env demo_args demo_state demo_table)
       = [''/work/quiz_output/mcq_video_1.mp4'', ''/work/quiz_output/mcq_video_2.mp4'']"
    by code_simp
  then have some: "fst (loop_result encoder_down_env demo_args demo_state demo_table) \<noteq> []"
    by simp
  have "fst (concatenate_videos encoder_down_env
                 (fst (loop_result encoder_down_env demo_args demo_state demo_table))
                 (final_video_full_path encoder_down_env demo_args)
                 (snd (snd (loop_result encoder_down_env demo_args demo_state demo_table)))) = Inl ?e"
    by code_simp
  then have fails: "concatenate_videos encoder_down_env
                 (fst (loop_result encoder_down_env demo_args demo_state demo_table))
                 (final_video_full_path encoder_down_env demo_args)
                 (snd (snd (loop_result encoder_down_env demo_args demo_state demo_table)))
               = (Inl ?e, ?st3)"
    by (simp add: prod_eq_iff)
  have 2: "successful_items encoder_down_env demo_args ''/work/quiz_output'' 0
             demo_table (touch ''/work/quiz_output'' demo_state) = [1, 2]"
    by code_simp
  have 3: "output_dir_of encoder_down_env demo_args = ''/work/quiz_output''"
    by code_simp
  from concat_failure_keeps_files [OF encoder_down_reached some fails] encoder_down_reached 1
  show ?thesis
    unfolding 3 2 by simp
qed

subsection \<open>A failing row\<close>


text \<open>The body of the \<open>try\<close> of an item raises exactly when one of its three stages
  raises: the renderer, or after it the narrator, or after both the clip composer.\<close>

lemma item_stages_raises:
  "item_stages w a d n row st = (Inl e, st') \<longleftrightarrow>
     create_image_for_mcq w row (image_file d n) (img_width a) (img_height a) (bg_color_rgb a)
         (font_color_rgb a) (font_size a) (font_path a) DEFAULT_LINE_SPACING DEFAULT_MARGIN
         DEFAULT_TEXT_WRAP_WIDTH st = (Inl e, st')
     \<or> (\<exists>spoken st1. spoken \<noteq> [] \<and>
           create_image_for_mcq w row (image_file d n) (img_width a) (img_height a) (bg_color_rgb a)
             (font_color_rgb a) (font_size a) (font_path a) DEFAULT_LINE_SPACING DEFAULT_MARGIN
             DEFAULT_TEXT_WRAP_WIDTH st = (Inr spoken, st1)
           \<and> (create_audio_for_mcq w spoken (audio_file d n) (language a) st1 = (Inl e, st')
              \<or> (\<exists>st2. create_audio_for_mcq w spoken (audio_file d n) (language a) st1 = (Inr (), st2)
                    \<and> create_video_clip w (image_file d n) (audio_file d n) (video_file d n)
                          DEFAULT_FPS st2 = (Inl e, st'))))"
  by (auto simp: item_stages_def split: prod.splits sum.splits)




subsection \<open>A row without text\<close>

lemma draw_cells_blank:
  "\<forall>c\<in>set row. cleanup_text c = [] \<Longrightarrow>
     draw_cells w font fc fsz ls m ww y tc row = Inr (y, tc)"
  by (induction row) simp_all





end
